theory Spec2Isabelle
  imports Main "HOL-Library.AList"
begin

section \<open>Text\<close>

text \<open>
  Python text is modelled by \<^typ>\<open>string\<close>, one \<^typ>\<open>char\<close> per code point. The
  classification and case functions below are those of Python on ASCII text; a code point
  above 127 is read as a symbol that is neither space, digit, letter nor word character
  and that has no other case. The rupee sign of one character class of the entity
  extractor lies outside this alphabet and is left out of that class.
\<close>

definition in_range :: "char \<Rightarrow> char \<Rightarrow> char \<Rightarrow> bool" where
  \<comment> \<open>the code point of \<open>c\<close> lies between those of \<open>lo\<close> and \<open>hi\<close>\<close>
  "in_range lo hi c \<longleftrightarrow>
     (of_char lo :: integer) \<le> of_char c \<and> (of_char c :: integer) \<le> of_char hi"

definition is_digit :: "char \<Rightarrow> bool" where
  "is_digit c \<longleftrightarrow> in_range (CHR ''0'') (CHR ''9'') c"

definition is_space :: "char \<Rightarrow> bool" where
  \<comment> \<open>\<open>str.isspace\<close> and the class \<open>\s\<close>: tab to carriage return, the four separators, space\<close>
  "is_space c \<longleftrightarrow> in_range (CHR 0x09) (CHR 0x0D) c \<or> in_range (CHR 0x1C) (CHR 0x20) c"

definition is_upper :: "char \<Rightarrow> bool" where
  "is_upper c \<longleftrightarrow> in_range (CHR ''A'') (CHR ''Z'') c"

definition is_lower :: "char \<Rightarrow> bool" where
  "is_lower c \<longleftrightarrow> in_range (CHR ''a'') (CHR ''z'') c"

definition is_word :: "char \<Rightarrow> bool" where
  \<comment> \<open>the class \<open>\w\<close>, which decides the boundary \<open>\b\<close>\<close>
  "is_word c \<longleftrightarrow> is_lower c \<or> is_upper c \<or> is_digit c \<or> c = CHR ''_''"

definition lower_char :: "char \<Rightarrow> char" where
  "lower_char c = (if is_upper c then char_of (of_char c + (32::integer)) else c)"

definition upper_char :: "char \<Rightarrow> char" where
  "upper_char c = (if is_lower c then char_of (of_char c - (32::integer)) else c)"

definition lower :: "string \<Rightarrow> string" where
  "lower s = map lower_char s"

definition upper :: "string \<Rightarrow> string" where
  "upper s = map upper_char s"

definition strip :: "string \<Rightarrow> string" where
  "strip s = rev (dropWhile is_space (rev (dropWhile is_space s)))"

fun contains :: "string \<Rightarrow> string \<Rightarrow> bool" where
  \<comment> \<open>\<open>contains sub s\<close> is Python's \<open>sub in s\<close>\<close>
  "contains sub [] = (sub = [])"
| "contains sub (c # cs) = (take (length sub) (c # cs) = sub \<or> contains sub cs)"

definition digit_char :: "nat \<Rightarrow> char" where
  "digit_char n = char_of (48 + n mod 10)"

fun str_nat :: "nat \<Rightarrow> string" where
  "str_nat n = (if n < 10 then [digit_char n] else str_nat (n div 10) @ [digit_char (n mod 10)])"

definition str_int :: "int \<Rightarrow> string" where
  \<comment> \<open>\<open>str\<close> of an integer\<close>
  "str_int i = (if i < 0 then CHR ''-'' # str_nat (nat (- i)) else str_nat (nat i))"

definition zfill :: "nat \<Rightarrow> string \<Rightarrow> string" where
  "zfill w s = replicate (w - length s) (CHR ''0'') @ s"

section \<open>Errors\<close>

datatype error = ValueError | OverflowError | HTTP_404 | HTTP_500

definition ebind :: "error + 'a \<Rightarrow> ('a \<Rightarrow> error + 'b) \<Rightarrow> error + 'b" where
  \<comment> \<open>sequencing: an exception raised by the first step leaves the function\<close>
  "ebind x f = (case x of Inl e \<Rightarrow> Inl e | Inr a \<Rightarrow> f a)"

subsection \<open>\<open>int\<close> of a string\<close>

definition digit_val :: "char \<Rightarrow> int" where
  "digit_val c = of_char c - 48"

definition dec_value :: "string \<Rightarrow> int" where
  "dec_value s = foldl (\<lambda>acc c. 10 * acc + digit_val c) 0 s"

definition valid_digits :: "string \<Rightarrow> bool" where
  \<comment> \<open>decimal digits, single underscores allowed between two digits\<close>
  "valid_digits b \<longleftrightarrow> b \<noteq> [] \<and> (\<forall>c \<in> set b. is_digit c \<or> c = CHR ''_'')
     \<and> is_digit (hd b) \<and> is_digit (last b) \<and> \<not> contains ''__'' b"

definition py_int :: "string \<Rightarrow> error + int" where
  \<comment> \<open>\<open>int(s)\<close> in base ten: surrounding space is dropped, one sign is allowed, anything
      else raises ValueError. The interpreter's configurable cap on the number of digits
      of one conversion is a run-time setting and is not modelled.\<close>
  "py_int s =
     (let t = strip s;
          neg = (t \<noteq> [] \<and> hd t = CHR ''-'');
          body = (if t \<noteq> [] \<and> (hd t = CHR ''-'' \<or> hd t = CHR ''+'') then tl t else t)
      in if valid_digits body
         then Inr ((if neg then - 1 else 1) * dec_value (filter (\<lambda>c. c \<noteq> CHR ''_'') body))
         else Inl ValueError)"

section \<open>Regular expressions\<close>

text \<open>
  The patterns of the program are terms of \<open>re\<close>, and \<open>re.search\<close> is a backtracking
  matcher over them: \<open>matches\<close> lists every way a pattern can match at one position, in
  the order in which Python's engine tries them (an alternative left to right, a greedy
  repetition longest first), so that the head of the list is the match Python reports.
  A state holds the character before the position (for \<open>\b\<close>), the text still to be read
  and the groups captured so far. Every repeated sub-pattern of the program consumes at
  least one character, so a repetition runs at most once per remaining character.
\<close>

datatype citem = CChar char | CRange char char | CDigit | CSpace

fun item_has :: "citem \<Rightarrow> char \<Rightarrow> bool" where
  "item_has (CChar x) c = (c = x)"
| "item_has (CRange lo hi) c = in_range lo hi c"
| "item_has CDigit c = is_digit c"
| "item_has CSpace c = is_space c"

datatype re =
    Chr char
  | Set "citem list"
  | Seq re re
  | Alt re re
  | Rep nat "nat option" re
  | Grp nat re
  | Bnd
  | Eps

abbreviation rplus :: "re \<Rightarrow> re" where "rplus r \<equiv> Rep 1 None r"
abbreviation rstar :: "re \<Rightarrow> re" where "rstar r \<equiv> Rep 0 None r"
abbreviation ropt :: "re \<Rightarrow> re" where "ropt r \<equiv> Rep 0 (Some 1) r"

fun lit :: "string \<Rightarrow> re" where
  "lit [] = Eps"
| "lit [c] = Chr c"
| "lit (c # cs) = Seq (Chr c) (lit cs)"

fun seqs :: "re list \<Rightarrow> re" where
  "seqs [] = Eps"
| "seqs [r] = r"
| "seqs (r # rs) = Seq r (seqs rs)"

fun alts :: "re list \<Rightarrow> re" where
  "alts [] = Eps"
| "alts [r] = r"
| "alts (r # rs) = Alt r (alts rs)"

record mstate =
  prev :: "char option"
  rest :: string
  caps :: "nat \<rightharpoonup> string"

definition chr_ok :: "bool \<Rightarrow> char \<Rightarrow> char \<Rightarrow> bool" where
  \<comment> \<open>a literal character, under IGNORECASE when \<open>ic\<close>\<close>
  "chr_ok ic x c = (if ic then lower_char c = lower_char x else c = x)"

definition set_ok :: "bool \<Rightarrow> citem list \<Rightarrow> char \<Rightarrow> bool" where
  \<comment> \<open>a character class; under IGNORECASE either case of the character may be in it\<close>
  "set_ok ic items c =
     (if ic then (\<exists>i \<in> set items. item_has i (lower_char c))
                 \<or> (\<exists>i \<in> set items. item_has i (upper_char c))
      else (\<exists>i \<in> set items. item_has i c))"

definition step1 :: "(char \<Rightarrow> bool) \<Rightarrow> mstate \<Rightarrow> mstate list" where
  "step1 P s = (case rest s of [] \<Rightarrow> []
      | c # cs \<Rightarrow> if P c then [s\<lparr>prev := Some c, rest := cs\<rparr>] else [])"

fun rep :: "(mstate \<Rightarrow> mstate list) \<Rightarrow> nat \<Rightarrow> nat option \<Rightarrow> nat \<Rightarrow> mstate \<Rightarrow> mstate list" where
  "rep f lo hi 0 s = (if lo = 0 then [s] else [])"
| "rep f lo hi (Suc n) s =
     (if hi = Some 0 then []
      else concat (map (\<lambda>s'. rep f (lo - 1) (map_option (\<lambda>h. h - 1) hi) n s') (f s)))
     @ (if lo = 0 then [s] else [])"

definition at_boundary :: "mstate \<Rightarrow> bool" where
  "at_boundary s \<longleftrightarrow>
     (case prev s of None \<Rightarrow> False | Some c \<Rightarrow> is_word c)
       \<noteq> (case rest s of [] \<Rightarrow> False | c # _ \<Rightarrow> is_word c)"

primrec matches :: "bool \<Rightarrow> re \<Rightarrow> mstate \<Rightarrow> mstate list" where
  "matches ic (Chr x) s = step1 (chr_ok ic x) s"
| "matches ic (Set items) s = step1 (set_ok ic items) s"
| "matches ic (Seq r1 r2) s = concat (map (matches ic r2) (matches ic r1 s))"
| "matches ic (Alt r1 r2) s = matches ic r1 s @ matches ic r2 s"
| "matches ic (Rep lo hi r) s = rep (matches ic r) lo hi (length (rest s)) s"
| "matches ic (Grp n r) s =
     map (\<lambda>s'. s'\<lparr>caps := (caps s')(n \<mapsto> take (length (rest s) - length (rest s')) (rest s))\<rparr>)
       (matches ic r s)"
| "matches ic Bnd s = (if at_boundary s then [s] else [])"
| "matches ic Eps s = [s]"

definition match_at :: "bool \<Rightarrow> re \<Rightarrow> char option \<Rightarrow> string \<Rightarrow> mstate option" where
  \<comment> \<open>the match Python finds at one position, if any\<close>
  "match_at ic r p s =
     (case matches ic r \<lparr>prev = p, rest = s, caps = Map.empty\<rparr> of [] \<Rightarrow> None | m # _ \<Rightarrow> Some m)"

fun search_from :: "bool \<Rightarrow> re \<Rightarrow> char option \<Rightarrow> string \<Rightarrow> mstate option" where
  "search_from ic r p [] = match_at ic r p []"
| "search_from ic r p (c # cs) =
     (case match_at ic r p (c # cs) of None \<Rightarrow> search_from ic r (Some c) cs | Some m \<Rightarrow> Some m)"

definition search :: "bool \<Rightarrow> re \<Rightarrow> string \<Rightarrow> mstate option" where
  \<comment> \<open>\<open>re.search(pattern, text)\<close>, with \<open>re.IGNORECASE\<close> when \<open>ic\<close>: the leftmost match\<close>
  "search ic r text = search_from ic r None text"

definition match_group :: "mstate \<Rightarrow> nat \<Rightarrow> string" where
  \<comment> \<open>\<open>match.group(n)\<close>; every group read by the program takes part in every match\<close>
  "match_group m n = (case caps m n of None \<Rightarrow> [] | Some w \<Rightarrow> w)"

fun first_search :: "bool \<Rightarrow> re list \<Rightarrow> string \<Rightarrow> mstate option" where
  \<comment> \<open>\<open>for pattern in patterns: match = re.search(...); if match: ...; break\<close>\<close>
  "first_search ic [] text = None"
| "first_search ic (p # ps) text =
     (case search ic p text of None \<Rightarrow> first_search ic ps text | Some m \<Rightarrow> Some m)"

section \<open>Data model\<close>

text \<open>
  A Python dictionary is an association list in insertion order with distinct keys:
  \<open>d[k] = v\<close> is \<open>AList.update k v d\<close> (a new key goes to the end, a known key keeps
  its place), \<open>k in d\<close> and \<open>d.get(k)\<close> read \<open>map_of d k\<close>. An entity record maps a
  category to a string or, for \<open>passengers\<close>, to a passenger count.
\<close>

type_synonym passenger_count = "(string \<times> int) list"

datatype val = VStr string | VPass passenger_count

type_synonym entity_record = "(string \<times> val) list"

definition count_of :: "passenger_count \<Rightarrow> string \<Rightarrow> int" where
  \<comment> \<open>\<open>passengers.get(key, 0)\<close>\<close>
  "count_of ps k = (case map_of ps k of None \<Rightarrow> 0 | Some v \<Rightarrow> v)"

fun join :: "string \<Rightarrow> string list \<Rightarrow> string" where
  "join sep [] = []"
| "join sep [x] = x"
| "join sep (x # xs) = x @ sep @ join sep xs"

definition py_str :: "val \<Rightarrow> string" where
  \<comment> \<open>\<open>str(value)\<close>; the keys of a passenger count are plain identifiers, quoted as they are\<close>
  "py_str v = (case v of VStr s \<Rightarrow> s
     | VPass ps \<Rightarrow> ''{'' @ join '', '' (map (\<lambda>(k, n). [CHR 0x27] @ k @ [CHR 0x27] @ '': '' @ str_int n) ps) @ ''}'')"

section \<open>Entity extractor (nlp\_extractor.py)\<close>

definition digit :: re where "digit = Set [CDigit]"
definition space :: re where "space = Set [CSpace]"
definition upper_az :: re where "upper_az = Set [CRange (CHR ''A'') (CHR ''Z'')]"
definition lower_az :: re where "lower_az = Set [CRange (CHR ''a'') (CHR ''z'')]"
definition colon_or_space :: re where "colon_or_space = Set [CChar (CHR '':''), CSpace]"

subsection \<open>Passenger counts\<close>

definition adult_male_pattern :: re where
  \<comment> \<open>\<open>(\d+)\s*(?:adult\s*)?(?:men|man|male)\<close>\<close>
  "adult_male_pattern = Seq (Grp 1 (rplus digit))
     (seqs [rstar space, ropt (Seq (lit ''adult'') (rstar space)),
            alts [lit ''men'', lit ''man'', lit ''male'']])"

definition adult_female_pattern :: re where
  \<comment> \<open>\<open>(\d+)\s*(?:adult\s*)?(?:women|woman|female)\<close>\<close>
  "adult_female_pattern = Seq (Grp 1 (rplus digit))
     (seqs [rstar space, ropt (Seq (lit ''adult'') (rstar space)),
            alts [lit ''women'', lit ''woman'', lit ''female'']])"

definition minor_female_pattern :: re where
  \<comment> \<open>\<open>(\d+)\s*female\s*minor\<close>\<close>
  "minor_female_pattern = Seq (Grp 1 (rplus digit))
     (seqs [rstar space, lit ''female'', rstar space, lit ''minor''])"

definition minor_male_pattern :: re where
  \<comment> \<open>\<open>(\d+)\s*male\s*minor\<close>\<close>
  "minor_male_pattern = Seq (Grp 1 (rplus digit))
     (seqs [rstar space, lit ''male'', rstar space, lit ''minor''])"

definition minor_pattern :: re where
  \<comment> \<open>\<open>(\d+)\s*(kids|children|child|minor)\<close>\<close>
  "minor_pattern = Seq (Grp 1 (rplus digit))
     (seqs [rstar space, Grp 2 (alts [lit ''kids'', lit ''children'', lit ''child'', lit ''minor''])])"

definition set_count :: "re \<Rightarrow> string \<Rightarrow> string \<Rightarrow> passenger_count \<Rightarrow> error + passenger_count" where
  \<comment> \<open>\<open>match = re.search(pattern, text, re.IGNORECASE)\<close>;
      \<open>if match: passengers[key] = int(match.group(1))\<close>\<close>
  "set_count pattern text key passengers =
     (case search True pattern text of
        None \<Rightarrow> Inr passengers
      | Some m \<Rightarrow> ebind (py_int (match_group m 1)) (\<lambda>n. Inr (AList.update key n passengers)))"

definition extract_passenger_info :: "string \<Rightarrow> error + passenger_count" where
  "extract_passenger_info text =
     ebind (set_count adult_male_pattern text ''adult_male'' []) (\<lambda>passengers.
     ebind (set_count adult_female_pattern text ''adult_female'' passengers) (\<lambda>passengers.
     ebind (set_count minor_female_pattern text ''minor_female'' passengers) (\<lambda>passengers.
     ebind (set_count minor_male_pattern text ''minor_male'' passengers) (\<lambda>passengers.
     ebind (set_count minor_pattern text ''minor'' passengers) (\<lambda>passengers.
     Inr (if passengers \<noteq> []
          then AList.update ''total'' (sum_list (map snd passengers)) passengers
          else passengers))))))"

subsection \<open>Entities\<close>

definition capitalized_words :: re where
  \<comment> \<open>\<open>[A-Z][a-z]+(?:\s+[A-Z][a-z]+)+\<close>\<close>
  "capitalized_words = seqs [upper_az, rplus lower_az,
     rplus (seqs [rplus space, upper_az, rplus lower_az])]"

definition name_patterns :: "re list" where
  "name_patterns =
     [seqs [alts [lit ''Name'', lit ''Passenger'', lit ''Customer''], rplus colon_or_space,
            Grp 1 capitalized_words],
      seqs [alts [lit ''Mr'', lit ''Mrs'', lit ''Ms'', lit ''Dr''], ropt (Chr (CHR ''.'')),
            rplus space, Grp 1 capitalized_words]]"

definition slash_or_dash :: re where
  "slash_or_dash = Set [CChar (CHR ''/''), CChar (CHR ''-'')]"

definition date_patterns :: "re list" where
  "date_patterns =
     [seqs [Bnd, Grp 1 (seqs [Rep 4 (Some 4) digit, Chr (CHR ''-''), Rep 2 (Some 2) digit,
                              Chr (CHR ''-''), Rep 2 (Some 2) digit]), Bnd],
      seqs [Bnd, Grp 1 (seqs [Rep 2 (Some 2) digit, Chr (CHR ''/''), Rep 2 (Some 2) digit,
                              Chr (CHR ''/''), Rep 4 (Some 4) digit]), Bnd],
      seqs [Bnd, Grp 1 (seqs [Rep 2 (Some 2) digit, Chr (CHR ''-''), Rep 2 (Some 2) digit,
                              Chr (CHR ''-''), Rep 4 (Some 4) digit]), Bnd],
      seqs [alts [lit ''Date'', lit ''Travel'', lit ''Departure''], rplus colon_or_space,
            Grp 1 (seqs [Rep 1 (Some 2) digit, slash_or_dash, Rep 1 (Some 2) digit,
                         slash_or_dash, Rep 2 (Some 4) digit])]]"

definition currency :: re where
  \<comment> \<open>the class of the rupee and dollar signs, of which the alphabet has the dollar\<close>
  "currency = Set [CChar (CHR ''$'')]"

definition number :: re where
  \<comment> \<open>\<open>[\d,]+(?:\.\d{2})?\<close>\<close>
  "number = Seq (rplus (Set [CDigit, CChar (CHR '','')]))
     (ropt (Seq (Chr (CHR ''.'')) (Rep 2 (Some 2) digit)))"

definition amount_patterns :: "re list" where
  "amount_patterns =
     [seqs [currency, rstar space, Grp 1 number],
      seqs [alts [lit ''Amount'', lit ''Total'', lit ''Price'', lit ''Fare''], rplus colon_or_space,
            ropt currency, rstar space, Grp 1 number],
      seqs [alts [Seq (lit ''Rs'') (ropt (Chr (CHR ''.''))), lit ''INR''], rstar space,
            Grp 1 number]]"

definition upper_alnum :: re where
  "upper_alnum = Set [CRange (CHR ''A'') (CHR ''Z''), CRange (CHR ''0'') (CHR ''9'')]"

definition pnr_labelled :: re where
  \<comment> \<open>\<open>PNR[:\s]+([A-Z0-9]{6,10})\<close>\<close>
  "pnr_labelled = seqs [lit ''PNR'', rplus colon_or_space, Grp 1 (Rep 6 (Some 10) upper_alnum)]"

definition pnr_bare :: re where
  \<comment> \<open>\<open>\b([A-Z0-9]{6})\b\<close>\<close>
  "pnr_bare = seqs [Bnd, Grp 1 (Rep 6 (Some 6) upper_alnum), Bnd]"

definition pnr_patterns :: "re list" where
  "pnr_patterns =
     [pnr_labelled,
      seqs [lit ''Booking'', rplus colon_or_space, Grp 1 (Rep 6 (Some 12) upper_alnum)],
      seqs [lit ''ID'', rplus colon_or_space, Grp 1 (Rep 6 (Some 12) upper_alnum)],
      pnr_bare]"

definition letters :: re where
  "letters = rplus (Set [CRange (CHR ''A'') (CHR ''Z''), CRange (CHR ''a'') (CHR ''z'')])"

definition route_pattern :: re where
  \<comment> \<open>\<open>([A-Za-z]+)\s+to\s+([A-Za-z]+)\<close>\<close>
  "route_pattern = seqs [Grp 1 letters, rplus space, lit ''to'', rplus space, Grp 2 letters]"

definition extract_entities :: "string \<Rightarrow> error + entity_record" where
  "extract_entities text =
     (let entities = [];
          entities = (case first_search True name_patterns text of
                        None \<Rightarrow> entities
                      | Some m \<Rightarrow> AList.update ''name'' (VStr (strip (match_group m 1))) entities);
          entities = (case first_search False date_patterns text of
                        None \<Rightarrow> entities
                      | Some m \<Rightarrow> AList.update ''date'' (VStr (match_group m 1)) entities);
          entities = (case first_search True amount_patterns text of
                        None \<Rightarrow> entities
                      | Some m \<Rightarrow> AList.update ''amount'' (VStr (strip (match_group m 1))) entities);
          entities = (case first_search False pnr_patterns text of
                        None \<Rightarrow> entities
                      | Some m \<Rightarrow> AList.update ''booking_id'' (VStr (match_group m 1)) entities);
          entities = (case search True route_pattern text of
                        None \<Rightarrow> entities
                      | Some m \<Rightarrow>
                          (let origin = strip (match_group m 1);
                               destination = strip (match_group m 2)
                           in AList.update ''route'' (VStr (origin @ ''-'' @ destination))
                                (AList.update ''destination'' (VStr destination)
                                  (AList.update ''origin'' (VStr origin) entities))))
      in ebind (extract_passenger_info text) (\<lambda>passenger_data.
           Inr (if passenger_data \<noteq> []
                then AList.update ''passengers'' (VPass passenger_data) entities
                else entities)))"

section \<open>Cross-frame merger (frame\_processor.py)\<close>

datatype frame_result =
    Frame nat string entity_record
  | Frame_error nat string

fun frame_entities :: "frame_result \<Rightarrow> entity_record" where
  \<comment> \<open>\<open>frame_data.get('entities', {})\<close>\<close>
  "frame_entities (Frame i text entities) = entities"
| "frame_entities (Frame_error i e) = []"

definition merge_item :: "entity_record \<Rightarrow> string \<times> val \<Rightarrow> entity_record" where
  "merge_item merged kv =
     (case map_of merged (fst kv) of
        None \<Rightarrow> AList.update (fst kv) (snd kv) merged
      | Some cur \<Rightarrow>
          (case snd kv of
             VStr s \<Rightarrow> if length s > length (py_str cur)
                       then AList.update (fst kv) (snd kv) merged else merged
           | VPass ps \<Rightarrow> merged))"

definition merge_entities :: "frame_result list \<Rightarrow> entity_record" where
  "merge_entities frame_results =
     foldl (\<lambda>merged frame_data. foldl merge_item merged (frame_entities frame_data))
       [] frame_results"

section \<open>Flight query parser (query\_parser.py)\<close>

subsection \<open>City normalizer\<close>

definition CITY_TO_IATA :: "(string \<times> string) list" where
  "CITY_TO_IATA =
     [(''delhi'', ''DEL''), (''mumbai'', ''BOM''), (''bangalore'', ''BLR''), (''chennai'', ''MAA''),
      (''kolkata'', ''CCU''), (''hyderabad'', ''HYD''), (''pune'', ''PNQ''), (''goa'', ''GOI''),
      (''ajman'', ''AJM''), (''dubai'', ''DXB''), (''abu dhabi'', ''AUH''), (''sharjah'', ''SHJ''),
      (''new york'', ''JFK''), (''london'', ''LHR''), (''paris'', ''CDG''), (''singapore'', ''SIN'')]"

definition misspellings :: "(string \<times> string) list" where
  "misspellings =
     [(''delhee'', ''delhi''), (''deli'', ''delhi''), (''mumbi'', ''mumbai''),
      (''bangalor'', ''bangalore''), (''bangaluru'', ''bangalore'')]"

definition normalize_city :: "string \<Rightarrow> string" where
  "normalize_city city0 =
     (let city = strip (lower city0);
          city = (case map_of misspellings city of None \<Rightarrow> city | Some c \<Rightarrow> c)
      in case map_of CITY_TO_IATA city of None \<Rightarrow> take 3 (upper city) | Some code \<Rightarrow> code)"

subsection \<open>Dates\<close>

text \<open>
  A \<open>datetime\<close> at midnight is modelled by its proleptic Gregorian ordinal (day 1 is
  0001-01-01), converted from and to year, month and day as the standard library does.
  Adding a \<open>timedelta\<close> of whole days adds to the ordinal and raises OverflowError
  outside the years 1 to 9999; \<open>weekday\<close> counts Monday as 0. \<open>strftime\<close> writes the
  year with four digits.
\<close>

definition DAYS_IN_MONTH :: "int list" where
  "DAYS_IN_MONTH = [-1, 31, 28, 31, 30, 31, 30, 31, 31, 30, 31, 30, 31]"

definition DAYS_BEFORE_MONTH :: "int list" where
  "DAYS_BEFORE_MONTH = [-1, 0, 31, 59, 90, 120, 151, 181, 212, 243, 273, 304, 334]"

definition is_leap :: "int \<Rightarrow> bool" where
  "is_leap year \<longleftrightarrow> year mod 4 = 0 \<and> (year mod 100 \<noteq> 0 \<or> year mod 400 = 0)"

definition days_before_year :: "int \<Rightarrow> int" where
  "days_before_year year = (let y = year - 1 in y * 365 + y div 4 - y div 100 + y div 400)"

definition days_in_month :: "int \<Rightarrow> int \<Rightarrow> int" where
  "days_in_month year month =
     (if month = 2 \<and> is_leap year then 29 else DAYS_IN_MONTH ! nat month)"

definition days_before_month :: "int \<Rightarrow> int \<Rightarrow> int" where
  "days_before_month year month =
     DAYS_BEFORE_MONTH ! nat month + (if month > 2 \<and> is_leap year then 1 else 0)"

definition ymd2ord :: "int \<Rightarrow> int \<Rightarrow> int \<Rightarrow> int" where
  "ymd2ord year month day = days_before_year year + days_before_month year month + day"

definition ord2ymd :: "int \<Rightarrow> int \<times> int \<times> int" where
  "ord2ymd ordinal =
     (let n = ordinal - 1;
          n400 = n div 146097; n = n mod 146097;
          n100 = n div 36524; n = n mod 36524;
          n4 = n div 1461; n = n mod 1461;
          n1 = n div 365; n = n mod 365;
          year = n400 * 400 + 1 + n100 * 100 + n4 * 4 + n1
      in if n1 = 4 \<or> n100 = 4 then (year - 1, 12, 31)
         else
           (let leapyear = (n1 = 3 \<and> (n4 \<noteq> 24 \<or> n100 = 3));
                month = (n + 50) div 32;
                preceding = DAYS_BEFORE_MONTH ! nat month + (if month > 2 \<and> leapyear then 1 else 0)
            in if preceding > n
               then (year, month - 1,
                     n - (preceding - (DAYS_IN_MONTH ! nat (month - 1)
                                        + (if month - 1 = 2 \<and> leapyear then 1 else 0))) + 1)
               else (year, month, n - preceding + 1)))"

definition max_ordinal :: int where
  \<comment> \<open>the ordinal of 9999-12-31\<close>
  "max_ordinal = 3652059"

definition add_days :: "int \<Rightarrow> int \<Rightarrow> error + int" where
  \<comment> \<open>\<open>date + timedelta(days=k)\<close>\<close>
  "add_days ordinal k =
     (if 1 \<le> ordinal + k \<and> ordinal + k \<le> max_ordinal then Inr (ordinal + k)
      else Inl OverflowError)"

definition weekday :: "int \<Rightarrow> int" where
  "weekday ordinal = (ordinal + 6) mod 7"

definition strftime :: "int \<Rightarrow> string" where
  \<comment> \<open>\<open>date.strftime("%Y-%m-%d")\<close>\<close>
  "strftime ordinal =
     (case ord2ymd ordinal of (y, m, d) \<Rightarrow>
        zfill 4 (str_int y) @ ''-'' @ zfill 2 (str_int m) @ ''-'' @ zfill 2 (str_int d))"

definition strptime_month :: re where
  \<comment> \<open>the directive \<open>%m\<close>: \<open>1[0-2]|0[1-9]|[1-9]\<close>\<close>
  "strptime_month =
     Alt (Seq (Chr (CHR ''1'')) (Set [CRange (CHR ''0'') (CHR ''2'')]))
    (Alt (Seq (Chr (CHR ''0'')) (Set [CRange (CHR ''1'') (CHR ''9'')]))
         (Set [CRange (CHR ''1'') (CHR ''9'')]))"

definition strptime_day :: re where
  \<comment> \<open>the directive \<open>%d\<close>: \<open>3[0-1]|[1-2]\d|0[1-9]|[1-9]| [1-9]\<close>\<close>
  "strptime_day =
     alts [Seq (Chr (CHR ''3'')) (Set [CRange (CHR ''0'') (CHR ''1'')]),
           Seq (Set [CRange (CHR ''1'') (CHR ''2'')]) digit,
           Seq (Chr (CHR ''0'')) (Set [CRange (CHR ''1'') (CHR ''9'')]),
           Set [CRange (CHR ''1'') (CHR ''9'')],
           Seq (Chr (CHR '' '')) (Set [CRange (CHR ''1'') (CHR ''9'')])]"

definition strptime_pattern :: re where
  \<comment> \<open>the pattern into which the standard library compiles the format \<open>%Y-%m-%d\<close>,
      matched under IGNORECASE\<close>
  "strptime_pattern =
     Seq (Grp 1 (seqs [digit, digit, digit, digit]))
    (Seq (Chr (CHR ''-''))
    (Seq (Grp 2 strptime_month)
    (Seq (Chr (CHR ''-''))
         (Grp 3 strptime_day))))"

definition strptime :: "string \<Rightarrow> error + int" where
  \<comment> \<open>\<open>datetime.strptime(s, "%Y-%m-%d")\<close>: the pattern must match the whole string and
      the fields must name a day of the calendar, else ValueError\<close>
  "strptime s =
     (case match_at True strptime_pattern None s of
        None \<Rightarrow> Inl ValueError
      | Some m \<Rightarrow>
          if rest m \<noteq> [] then Inl ValueError
          else ebind (py_int (match_group m 1)) (\<lambda>year.
               ebind (py_int (match_group m 2)) (\<lambda>month.
               ebind (py_int (match_group m 3)) (\<lambda>day.
               if 1 \<le> year \<and> 1 \<le> day \<and> day \<le> days_in_month year month
               then Inr (ymd2ord year month day) else Inl ValueError))))"

text \<open>
  The clock and the third-party date parser are outside the program: \<open>today\<close> is what
  \<open>datetime.now().strftime("%Y-%m-%d")\<close> returns and \<open>fuzzy_parse\<close> is
  \<open>dateutil.parser.parse(text, fuzzy=True)\<close>, \<open>None\<close> when it raises.
\<close>

record env =
  today :: string
  fuzzy_parse :: "string \<Rightarrow> int option"

definition or7 :: "int \<Rightarrow> int" where
  \<comment> \<open>\<open>x or 7\<close>\<close>
  "or7 x = (if x = 0 then 7 else x)"

definition parse_date :: "env \<Rightarrow> string \<Rightarrow> string \<Rightarrow> error + string" where
  "parse_date env date_text current_date_str =
     ebind (strptime current_date_str) (\<lambda>current_date.
       let date_text_lower = lower date_text in
       if contains ''today'' date_text_lower then Inr (strftime current_date)
       else if contains ''tomorrow'' date_text_lower
       then ebind (add_days current_date 1) (\<lambda>d. Inr (strftime d))
       else if contains ''next'' date_text_lower
       then
         (let days_ahead =
            (if contains ''monday'' date_text_lower then or7 ((0 - weekday current_date + 7) mod 7)
             else if contains ''tuesday'' date_text_lower then or7 ((1 - weekday current_date + 7) mod 7)
             else if contains ''wednesday'' date_text_lower then or7 ((2 - weekday current_date + 7) mod 7)
             else if contains ''thursday'' date_text_lower then or7 ((3 - weekday current_date + 7) mod 7)
             else if contains ''friday'' date_text_lower then or7 ((4 - weekday current_date + 7) mod 7)
             else if contains ''saturday'' date_text_lower then or7 ((5 - weekday current_date + 7) mod 7)
             else if contains ''sunday'' date_text_lower then or7 ((6 - weekday current_date + 7) mod 7)
             else 7)
          in ebind (add_days current_date days_ahead) (\<lambda>d. Inr (strftime d)))
       else (case fuzzy_parse env date_text of
               Some parsed \<Rightarrow> Inr (strftime parsed)
             | None \<Rightarrow> Inr date_text))"

subsection \<open>Patterns of the query parser\<close>

text \<open>
  The patterns are those of the source text, in which \<open>s\<close>, \<open>d\<close> and \<open>w\<close> stand
  unescaped: they are the letters themselves, not the classes of spaces, digits and word
  characters.
\<close>

definition query_route_patterns :: "re list" where
  \<comment> \<open>\<open>(?:from|leaving)s+([a-z]+)s+(?:to|for)s+([a-z]+)\<close> and
      \<open>([a-z]+)s+(?:to|for)s+([a-z]+)\<close>\<close>
  "query_route_patterns =
     [seqs [alts [lit ''from'', lit ''leaving''], rplus (Chr (CHR ''s'')), Grp 1 (rplus lower_az),
            rplus (Chr (CHR ''s'')), alts [lit ''to'', lit ''for''], rplus (Chr (CHR ''s'')),
            Grp 2 (rplus lower_az)],
      seqs [Grp 1 (rplus lower_az), rplus (Chr (CHR ''s'')), alts [lit ''to'', lit ''for''],
            rplus (Chr (CHR ''s'')), Grp 2 (rplus lower_az)]]"

definition query_date_patterns :: "re list" where
  \<comment> \<open>\<open>ons+(nexts+w+|w+day|tomorrow|today|d{1,2}[/-]d{1,2}[/-]d{2,4})\<close> and
      \<open>(nexts+w+|w+day)\<close>\<close>
  "query_date_patterns =
     [seqs [lit ''on'', rplus (Chr (CHR ''s'')),
            Grp 1 (alts [seqs [lit ''next'', rplus (Chr (CHR ''s'')), rplus (Chr (CHR ''w''))],
                         Seq (rplus (Chr (CHR ''w''))) (lit ''day''),
                         lit ''tomorrow'', lit ''today'',
                         seqs [Rep 1 (Some 2) (Chr (CHR ''d'')), slash_or_dash,
                               Rep 1 (Some 2) (Chr (CHR ''d'')), slash_or_dash,
                               Rep 2 (Some 4) (Chr (CHR ''d''))]])],
      Grp 1 (alts [seqs [lit ''next'', rplus (Chr (CHR ''s'')), rplus (Chr (CHR ''w''))],
                   Seq (rplus (Chr (CHR ''w''))) (lit ''day'')])]"

definition male_patterns :: "re list" where
  \<comment> \<open>\<open>(d+)s*(?:adults*)?(?:male|man|men)\<close> and \<open>(d+)s*men\<close>\<close>
  "male_patterns =
     [Seq (Grp 1 (rplus (Chr (CHR ''d''))))
        (seqs [rstar (Chr (CHR ''s'')), ropt (Seq (lit ''adult'') (rstar (Chr (CHR ''s'')))),
               alts [lit ''male'', lit ''man'', lit ''men'']]),
      Seq (Grp 1 (rplus (Chr (CHR ''d'')))) (seqs [rstar (Chr (CHR ''s'')), lit ''men''])]"

definition female_patterns :: "re list" where
  \<comment> \<open>\<open>(d+)s*(?:adults*)?(?:female|woman|women)\<close> and \<open>(d+)s*women\<close>\<close>
  "female_patterns =
     [Seq (Grp 1 (rplus (Chr (CHR ''d''))))
        (seqs [rstar (Chr (CHR ''s'')), ropt (Seq (lit ''adult'') (rstar (Chr (CHR ''s'')))),
               alts [lit ''female'', lit ''woman'', lit ''women'']]),
      Seq (Grp 1 (rplus (Chr (CHR ''d'')))) (seqs [rstar (Chr (CHR ''s'')), lit ''women''])]"

definition minor_patterns :: "re list" where
  \<comment> \<open>\<open>(d+)s*(?:females*)?minor\<close>, \<open>(d+)s*(?:males*)?minor\<close> and
      \<open>(d+)s*(?:child|children|kid)\<close>\<close>
  "minor_patterns =
     [Seq (Grp 1 (rplus (Chr (CHR ''d''))))
        (seqs [rstar (Chr (CHR ''s'')), ropt (Seq (lit ''female'') (rstar (Chr (CHR ''s'')))),
               lit ''minor'']),
      Seq (Grp 1 (rplus (Chr (CHR ''d''))))
        (seqs [rstar (Chr (CHR ''s'')), ropt (Seq (lit ''male'') (rstar (Chr (CHR ''s'')))),
               lit ''minor'']),
      Seq (Grp 1 (rplus (Chr (CHR ''d''))))
        (seqs [rstar (Chr (CHR ''s'')), alts [lit ''child'', lit ''children'', lit ''kid'']])]"

subsection \<open>The parser\<close>

definition query_count :: "re list \<Rightarrow> string \<Rightarrow> (int \<Rightarrow> passenger_count) \<Rightarrow> passenger_count
    \<Rightarrow> error + passenger_count" where
  \<comment> \<open>one loop over a list of count patterns: at the first pattern that matches, the
      count is \<open>int(match.group(1))\<close> and \<open>store\<close> records it\<close>
  "query_count patterns query_lower store passengers =
     (case first_search False patterns query_lower of
        None \<Rightarrow> Inr passengers
      | Some m \<Rightarrow> ebind (py_int (match_group m 1)) (\<lambda>count. Inr (store count)))"

definition query_passengers :: "string \<Rightarrow> error + passenger_count" where
  "query_passengers query_lower =
     ebind (query_count male_patterns query_lower (\<lambda>n. AList.update ''adult_male'' n []) [])
       (\<lambda>passengers.
     ebind (query_count female_patterns query_lower
              (\<lambda>n. AList.update ''adult_female'' n passengers) passengers)
       (\<lambda>passengers.
     ebind (query_count minor_patterns query_lower
              (\<lambda>count.
                 if contains ''female'' query_lower \<and> contains ''minor'' query_lower
                 then AList.update ''minor_female'' count passengers
                 else if contains ''male'' query_lower \<and> contains ''minor'' query_lower
                 then AList.update ''minor_male'' count passengers
                 else AList.update ''minor'' (count_of passengers ''minor'' + count) passengers)
              passengers)
       (\<lambda>passengers.
     let passengers = AList.update ''total''
           (sum_list (map snd (filter (\<lambda>kv. fst kv \<noteq> ''total'') passengers))) passengers
     in Inr (if map_of passengers ''total'' = Some 0
             then AList.update ''total'' 1 (AList.update ''adult_male'' 1 passengers)
             else passengers))))"

definition parse_flight_query :: "env \<Rightarrow> string \<Rightarrow> string option \<Rightarrow> error + entity_record" where
  "parse_flight_query env query current_date0 =
     (let current_date = (case current_date0 of None \<Rightarrow> today env | Some d \<Rightarrow> d);
          query_lower = lower query;
          result = [(''travel_intent'', VStr ''one_way''), (''passengers'', VPass [(''total'', 0)])];
          result = (case first_search False query_route_patterns query_lower of
                      None \<Rightarrow> result
                    | Some m \<Rightarrow>
                        AList.update ''destination'' (VStr (normalize_city (match_group m 2)))
                          (AList.update ''origin'' (VStr (normalize_city (match_group m 1))) result));
          result = (if contains ''round trip'' query_lower \<or> contains ''return'' query_lower
                       \<or> contains ''round-trip'' query_lower
                    then AList.update ''travel_intent'' (VStr ''round_trip'') result else result)
      in ebind (case first_search False query_date_patterns query_lower of
                  None \<Rightarrow> Inr result
                | Some m \<Rightarrow> ebind (parse_date env (match_group m 1) current_date)
                             (\<lambda>d. Inr (AList.update ''travel_date'' (VStr d) result)))
           (\<lambda>result.
         let result =
               (if contains ''morning'' query_lower
                then AList.update ''time_preference'' (VStr ''morning'') result
                else if contains ''afternoon'' query_lower
                then AList.update ''time_preference'' (VStr ''afternoon'') result
                else if contains ''evening'' query_lower
                then AList.update ''time_preference'' (VStr ''evening'') result
                else if contains ''night'' query_lower
                then AList.update ''time_preference'' (VStr ''night'') result
                else result)
         in ebind (query_passengers query_lower) (\<lambda>passengers.
              Inr (AList.update ''passengers'' (VPass passengers) result))))"

section \<open>Question resolver (main.py)\<close>










definition parse_flight_query_endpoint :: "env \<Rightarrow> string \<Rightarrow> string option \<Rightarrow> error + entity_record" where
  \<comment> \<open>the endpoint turns any exception of the parser into the HTTP error 500\<close>
  "parse_flight_query_endpoint env query current_date0 =
     (let current_date = (case current_date0 of None \<Rightarrow> today env
                          | Some d \<Rightarrow> if d = [] then today env else d)
      in case parse_flight_query env query (Some current_date) of
           Inl e \<Rightarrow> Inl HTTP_500
         | Inr result \<Rightarrow> Inr result)"

section \<open>Auxiliary notions\<close>

text \<open>
  The notions of this section model no function of the program: they are the predicates
  in which the properties are stated and proved, and the fixed inputs of the concrete
  runs.
\<close>

fun no_grp :: "nat \<Rightarrow> re \<Rightarrow> bool" where
  \<comment> \<open>the pattern has no group numbered \<open>g\<close>\<close>
  "no_grp g (Seq r1 r2) = (no_grp g r1 \<and> no_grp g r2)"
| "no_grp g (Alt r1 r2) = (no_grp g r1 \<and> no_grp g r2)"
| "no_grp g (Rep lo hi r) = no_grp g r"
| "no_grp g (Grp n r) = (n \<noteq> g \<and> no_grp g r)"
| "no_grp g r = True"

definition total_ok :: "passenger_count \<Rightarrow> bool" where
  \<comment> \<open>the key \<open>total\<close> is present and holds the sum of the five counts, an absent
      count being 0\<close>
  "total_ok ps \<longleftrightarrow>
     map_of ps ''total'' = Some (count_of ps ''adult_male'' + count_of ps ''adult_female''
       + count_of ps ''minor'' + count_of ps ''minor_male'' + count_of ps ''minor_female'')"


definition offline :: env where
  \<comment> \<open>an environment for concrete runs: a fixed clock and a date parser that fails\<close>
  "offline = \<lparr>today = ''2024-03-04'', fuzzy_parse = (\<lambda>text. None)\<rparr>"

definition absorbed :: "entity_record \<Rightarrow> string \<times> val \<Rightarrow> bool" where
  \<comment> \<open>merging the item into the record would change nothing\<close>
  "absorbed m kv \<longleftrightarrow>
     (\<exists>cur. map_of m (fst kv) = Some cur
        \<and> (case snd kv of VStr s \<Rightarrow> length s \<le> length (py_str cur) | VPass ps \<Rightarrow> True))"

definition count_patterns :: "re list" where
  \<comment> \<open>the five patterns of \<open>extract_passenger_info\<close>\<close>
  "count_patterns = [adult_male_pattern, adult_female_pattern, minor_female_pattern,
     minor_male_pattern, minor_pattern]"

definition no_count :: "string \<Rightarrow> bool" where
  \<comment> \<open>no count pattern of the query parser matches the lower-cased query\<close>
  "no_count query_lower \<longleftrightarrow>
     first_search False male_patterns query_lower = None
     \<and> first_search False female_patterns query_lower = None
     \<and> first_search False minor_patterns query_lower = None"

definition default_passengers :: passenger_count where
  \<comment> \<open>the dictionary \<open>{adult_male: 1, total: 1}\<close>, in the order in which the parser
      inserts its keys\<close>
  "default_passengers = [(''total'', 1), (''adult_male'', 1)]"


section \<open>Facts about characters and \<open>int\<close>\<close>

lemma of_char_integer_le:
  "((of_char a :: integer) \<le> of_char b) = ((of_char a :: nat) \<le> of_char b)"
proof -
  have "((of_nat (of_char a :: nat) :: integer) \<le> of_nat (of_char b :: nat)) = ((of_char a :: nat) \<le> of_char b)"
    by (rule of_nat_le_iff)
  thus ?thesis by (simp only: of_nat_of_char)
qed

lemma in_range_nat:
  "in_range lo hi c \<longleftrightarrow> (of_char lo :: nat) \<le> of_char c \<and> (of_char c :: nat) \<le> of_char hi"
  by (simp add: in_range_def of_char_integer_le)

lemma is_digit_nat: "is_digit c \<longleftrightarrow> 48 \<le> (of_char c :: nat) \<and> (of_char c :: nat) \<le> 57"
  by (simp add: is_digit_def in_range_nat)

lemma is_upper_nat: "is_upper c \<longleftrightarrow> 65 \<le> (of_char c :: nat) \<and> (of_char c :: nat) \<le> 90"
  by (simp add: is_upper_def in_range_nat)

lemma is_lower_nat: "is_lower c \<longleftrightarrow> 97 \<le> (of_char c :: nat) \<and> (of_char c :: nat) \<le> 122"
  by (simp add: is_lower_def in_range_nat)

lemma is_space_nat:
  "is_space c \<longleftrightarrow> (9 \<le> (of_char c :: nat) \<and> (of_char c :: nat) \<le> 13)
     \<or> (28 \<le> (of_char c :: nat) \<and> (of_char c :: nat) \<le> 32)"
  by (simp add: is_space_def in_range_nat)

lemma lower_char_nat:
  "lower_char c = (if is_upper c then char_of (of_char c + (32::nat)) else c)"
proof -
  have "char_of (of_char c + (32::integer)) = char_of (of_nat (of_char c + (32::nat)) :: integer)"
    by (simp add: of_nat_of_char)
  also have "\<dots> = char_of (of_char c + (32::nat))" by (rule char_of_nat)
  finally show ?thesis by (simp add: lower_char_def)
qed

lemma upper_char_nat:
  "upper_char c = (if is_lower c then char_of (of_char c - (32::nat)) else c)"
proof (cases "is_lower c")
  case True
  hence "32 \<le> (of_char c :: nat)" by (simp add: is_lower_nat)
  hence "(of_nat (of_char c - (32::nat)) :: integer) = of_char c - 32"
    by (simp add: of_nat_diff of_nat_of_char)
  hence "char_of (of_char c - (32::integer)) = char_of (of_nat (of_char c - (32::nat)) :: integer)"
    by simp
  also have "\<dots> = char_of (of_char c - (32::nat))" by (rule char_of_nat)
  finally show ?thesis using True by (simp add: upper_char_def)
next
  case False thus ?thesis by (simp add: upper_char_def)
qed

lemma of_char_lower_char:
  "(of_char (lower_char c) :: nat) = (if is_upper c then of_char c + 32 else of_char c)"
  by (simp add: lower_char_nat is_upper_nat)

lemma of_char_upper_char:
  "(of_char (upper_char c) :: nat) = (if is_lower c then of_char c - 32 else of_char c)"
proof -
  have "(of_char c :: nat) - 32 < 256" using nat_of_char_less_256 [of c] by arith
  thus ?thesis by (simp add: upper_char_nat)
qed

lemma is_digit_lower_char [simp]: "is_digit (lower_char c) = is_digit c"
  by (auto simp: is_digit_nat of_char_lower_char is_upper_nat)

lemma is_digit_upper_char [simp]: "is_digit (upper_char c) = is_digit c"
  by (auto simp: is_digit_nat of_char_upper_char is_lower_nat)

lemma set_ok_digit [simp]: "set_ok ic [CDigit] c = is_digit c"
  by (simp add: set_ok_def)

lemma digit_not_space: "is_digit c \<Longrightarrow> \<not> is_space c"
  by (auto simp: is_digit_nat is_space_nat)

lemma digit_not_sign: "is_digit c \<Longrightarrow> c \<noteq> CHR ''-'' \<and> c \<noteq> CHR ''+'' \<and> c \<noteq> CHR ''_''"
  by (auto simp: is_digit_nat)

lemma is_digit_consts [simp]:
  "is_digit (CHR ''0'')" "is_digit (CHR ''1'')" "is_digit (CHR ''2'')" "is_digit (CHR ''9'')"
  by (simp_all add: is_digit_nat)

lemma not_letter_consts [simp]:
  "\<not> is_upper (CHR ''0'')" "\<not> is_lower (CHR ''0'')" "\<not> is_upper (CHR ''1'')" "\<not> is_lower (CHR ''1'')"
  by (simp_all add: is_upper_nat is_lower_nat)



lemma strip_id: "s \<noteq> [] \<Longrightarrow> \<not> is_space (hd s) \<Longrightarrow> \<not> is_space (last s) \<Longrightarrow> strip s = s"
proof -
  assume a: "s \<noteq> []" "\<not> is_space (hd s)" "\<not> is_space (last s)"
  hence 1: "dropWhile is_space s = s" by (cases s) auto
  from a have "rev s \<noteq> []" "\<not> is_space (hd (rev s))" by (auto simp: hd_rev)
  hence "dropWhile is_space (rev s) = rev s" by (cases "rev s") auto
  with 1 show ?thesis by (simp add: strip_def)
qed

lemma contains_mem: "contains sub s \<Longrightarrow> sub \<noteq> [] \<Longrightarrow> set sub \<subseteq> set s"
proof (induction s)
  case Nil thus ?case by simp
next
  case (Cons c cs)
  show ?case
  proof (cases "take (length sub) (c # cs) = sub")
    case True
    hence "set sub = set (take (length sub) (c # cs))" by simp
    thus ?thesis using set_take_subset by metis
  next
    case False
    with Cons show ?thesis by auto
  qed
qed

lemma dec_value_nonneg_aux:
  "\<forall>c \<in> set w. is_digit c \<Longrightarrow> 0 \<le> a \<Longrightarrow> 0 \<le> foldl (\<lambda>acc c. 10 * acc + digit_val c) a w"
proof (induction w arbitrary: a)
  case Nil thus ?case by simp
next
  case (Cons c w)
  from Cons.prems have "is_digit c" by simp
  moreover have "digit_val c = int (of_char c) - 48"
    by (simp add: digit_val_def of_nat_of_char)
  ultimately have "0 \<le> digit_val c" by (simp add: is_digit_nat)
  with Cons.prems have "0 \<le> 10 * a + digit_val c" by simp
  with Cons show ?case by simp
qed

lemma py_int_digits:
  assumes "w \<noteq> []" "\<forall>c \<in> set w. is_digit c"
  shows "py_int w = Inr (dec_value w) \<and> 0 \<le> dec_value w"
proof -
  have h: "is_digit (hd w)" "is_digit (last w)" using assms by auto
  hence "strip w = w" using assms(1) by (intro strip_id) (auto dest: digit_not_space)
  moreover have "hd w \<noteq> CHR ''-''" "hd w \<noteq> CHR ''+''" using h digit_not_sign by auto
  moreover have "\<not> contains ''__'' w"
  proof
    assume "contains ''__'' w"
    hence "set ''__'' \<subseteq> set w" by (rule contains_mem) simp
    hence "CHR ''_'' \<in> set w" by simp
    with assms(2) digit_not_sign show False by blast
  qed
  moreover have "filter (\<lambda>c. c \<noteq> CHR ''_'') w = w"
    using assms(2) digit_not_sign by (simp add: filter_id_conv)
  ultimately have "py_int w = Inr (dec_value w)"
    using assms h by (simp add: py_int_def valid_digits_def)
  moreover have "0 \<le> dec_value w"
    unfolding dec_value_def using assms(2) by (intro dec_value_nonneg_aux) simp_all
  ultimately show ?thesis by simp
qed

lemma py_int_letter_d:
  assumes "w \<noteq> []" "\<forall>c \<in> set w. c = CHR ''d''"
  shows "py_int w = Inl ValueError"
proof -
  have h: "hd w = CHR ''d''" "last w = CHR ''d''" using assms by auto
  have nsp: "\<not> is_space (CHR ''d'')" by (simp add: is_space_nat)
  have ndg: "\<not> is_digit (CHR ''d'')" by (simp add: is_digit_nat)
  have "strip w = w" using assms(1) h nsp by (intro strip_id) auto
  thus ?thesis using h ndg assms(1) by (simp add: py_int_def valid_digits_def)
qed



lemma ebind_Inr: "ebind x f = Inr r \<Longrightarrow> \<exists>a. x = Inr a \<and> f a = Inr r"
  by (cases x) (simp_all add: ebind_def)

section \<open>Facts about the matcher\<close>

lemma step1_elem:
  "s' \<in> set (step1 Q s) \<Longrightarrow> \<exists>c. rest s = c # rest s' \<and> Q c \<and> caps s' = caps s"
  by (cases "rest s") (auto simp: step1_def split: if_splits)



lemma rep_caps:
  assumes "\<And>s s'. s' \<in> set (f s) \<Longrightarrow> caps s' g = caps s g"
  shows "s' \<in> set (rep f lo hi k s) \<Longrightarrow> caps s' g = caps s g"
proof (induction k arbitrary: lo hi s)
  case 0 thus ?case by (simp split: if_splits)
next
  case (Suc k)
  from Suc.prems consider "s' = s"
    | t where "t \<in> set (f s)" "s' \<in> set (rep f (lo - 1) (map_option (\<lambda>h. h - 1) hi) k t)"
    by (auto split: if_splits)
  thus ?case
  proof cases
    case 1 thus ?thesis by simp
  next
    case 2
    with Suc.IH assms show ?thesis by metis
  qed
qed

lemma matches_no_grp:
  "no_grp g r \<Longrightarrow> s' \<in> set (matches ic r s) \<Longrightarrow> caps s' g = caps s g"
proof (induction r arbitrary: s s')
  case (Chr x) thus ?case by (auto dest: step1_elem)
next
  case (Set items) thus ?case by (auto dest: step1_elem)
next
  case (Seq r1 r2)
  from Seq.prems obtain t where "t \<in> set (matches ic r1 s)" "s' \<in> set (matches ic r2 t)" by auto
  with Seq show ?case by (metis no_grp.simps(1))
next
  case (Alt r1 r2) thus ?case by auto
next
  case (Rep lo hi r)
  have "\<And>s s'. s' \<in> set (matches ic r s) \<Longrightarrow> caps s' g = caps s g"
    using Rep by simp
  from rep_caps [where f = "matches ic r", OF this] Rep.prems show ?case by simp
next
  case (Grp n r)
  from Grp.prems obtain t where t: "t \<in> set (matches ic r s)"
     "s' = t\<lparr>caps := (caps t)(n \<mapsto> take (length (rest s) - length (rest t)) (rest s))\<rparr>" by auto
  with Grp have "caps t g = caps s g" by simp
  with t Grp.prems show ?case by simp
next
  case Bnd thus ?case by (simp split: if_splits)
next
  case Eps thus ?case by simp
qed

lemma rep_step1:
  "s' \<in> set (rep (step1 Q) lo hi k s) \<Longrightarrow>
     \<exists>w. rest s = w @ rest s' \<and> (\<forall>c \<in> set w. Q c) \<and> lo \<le> length w"
proof (induction k arbitrary: lo hi s)
  case 0 thus ?case by (simp split: if_splits)
next
  case (Suc k)
  from Suc.prems consider "s' = s" "lo = 0"
    | t where "t \<in> set (step1 Q s)" "s' \<in> set (rep (step1 Q) (lo - 1) (map_option (\<lambda>h. h - 1) hi) k t)"
    by (auto split: if_splits)
  thus ?case
  proof cases
    case 1 thus ?thesis by simp
  next
    case 2
    from 2(1) obtain c where c: "rest s = c # rest t" "Q c" by (auto dest: step1_elem)
    from Suc.IH [OF 2(2)] obtain w where
      w: "rest t = w @ rest s'" "\<forall>c \<in> set w. Q c" "lo - 1 \<le> length w" by blast
    have "rest s = (c # w) @ rest s'" using c w by simp
    moreover have "\<forall>x \<in> set (c # w). Q x" using c w by simp
    moreover have "lo \<le> length (c # w)" using w by simp
    ultimately show ?thesis by blast
  qed
qed


lemma first_group:
  assumes m: "m \<in> set (matches ic (Seq (Grp g (Rep lo hi a)) rtail) s)"
    and lo: "0 < lo"
    and a: "matches ic a = step1 Q"
    and rtail: "no_grp g rtail"
  shows "\<exists>w. caps m g = Some w \<and> w \<noteq> [] \<and> (\<forall>c \<in> set w. Q c)"
proof -
  from m obtain t u where u: "u \<in> set (rep (step1 Q) lo hi (length (rest s)) s)"
    and t: "t = u\<lparr>caps := (caps u)(g \<mapsto> take (length (rest s) - length (rest u)) (rest s))\<rparr>"
    and mt: "m \<in> set (matches ic rtail t)"
    by (auto simp: a)
  from rep_step1 [OF u] obtain w where
    w: "rest s = w @ rest u" "\<forall>c \<in> set w. Q c" "lo \<le> length w" by blast
  hence "take (length (rest s) - length (rest u)) (rest s) = w" by simp
  with t have "caps t g = Some w" by simp
  moreover have "caps m g = caps t g" using rtail mt by (rule matches_no_grp)
  ultimately show ?thesis using w lo by auto
qed

lemma match_at_mem:
  "match_at ic r p s = Some m \<Longrightarrow> m \<in> set (matches ic r \<lparr>prev = p, rest = s, caps = Map.empty\<rparr>)"
  by (cases "matches ic r \<lparr>prev = p, rest = s, caps = Map.empty\<rparr>") (auto simp: match_at_def)

lemma search_from_mem:
  "search_from ic r p t = Some m \<Longrightarrow>
     \<exists>p' s. m \<in> set (matches ic r \<lparr>prev = p', rest = s, caps = Map.empty\<rparr>)"
proof (induction t arbitrary: p)
  case Nil
  thus ?case using match_at_mem by fastforce
next
  case (Cons c cs)
  show ?case
  proof (cases "match_at ic r p (c # cs)")
    case None
    with Cons show ?thesis by simp
  next
    case (Some m')
    with Cons.prems have "m' = m" by simp
    with Some match_at_mem show ?thesis by blast
  qed
qed

lemma search_mem:
  "search ic r t = Some m \<Longrightarrow>
     \<exists>p' s. m \<in> set (matches ic r \<lparr>prev = p', rest = s, caps = Map.empty\<rparr>)"
  unfolding search_def by (rule search_from_mem)

lemma first_search_mem:
  "first_search ic ps t = Some m \<Longrightarrow> \<exists>r \<in> set ps. search ic r t = Some m"
  by (induction ps) (auto split: option.splits)

lemma search_first_group:
  assumes "search ic (Seq (Grp g (Rep lo hi a)) rtail) t = Some m"
    and "0 < lo" and "matches ic a = step1 Q" and "no_grp g rtail"
  shows "\<exists>w. match_group m g = w \<and> w \<noteq> [] \<and> (\<forall>c \<in> set w. Q c)"
proof -
  from search_mem [OF assms(1)] obtain p' s where
    "m \<in> set (matches ic (Seq (Grp g (Rep lo hi a)) rtail) \<lparr>prev = p', rest = s, caps = Map.empty\<rparr>)"
    by blast
  from first_group [OF this assms(2,3,4)] show ?thesis by (auto simp: match_group_def)
qed

lemma matches_digit: "matches ic digit = step1 is_digit"
proof -
  have "set_ok ic [CDigit] = is_digit" by (rule ext) simp
  thus ?thesis by (auto simp: digit_def)
qed

lemma matches_letter_d: "matches False (Chr (CHR ''d'')) = step1 (\<lambda>c. c = CHR ''d'')"
proof -
  have "chr_ok False (CHR ''d'') = (\<lambda>c. c = CHR ''d'')" by (rule ext) (simp add: chr_ok_def)
  thus ?thesis by auto
qed

lemma digit_group_int:
  assumes "search ic (Seq (Grp 1 (rplus digit)) rtail) text = Some m" and "no_grp 1 rtail"
  shows "\<exists>n. py_int (match_group m 1) = Inr n"
proof -
  from search_first_group [OF assms(1) _ matches_digit assms(2)]
  have "match_group m 1 \<noteq> [] \<and> (\<forall>c \<in> set (match_group m 1). is_digit c)" by simp
  thus ?thesis using py_int_digits by blast
qed

lemma letter_group_int:
  assumes "search False (Seq (Grp 1 (rplus (Chr (CHR ''d'')))) rtail) text = Some m"
    and "no_grp 1 rtail"
  shows "py_int (match_group m 1) = Inl ValueError"
proof -
  from search_first_group [OF assms(1) _ matches_letter_d assms(2)]
  have "match_group m 1 \<noteq> [] \<and> (\<forall>c \<in> set (match_group m 1). c = CHR ''d'')" by simp
  thus ?thesis using py_int_letter_d by blast
qed



section \<open>Entity extractor\<close>

lemma count_pattern_int:
  assumes "p \<in> set count_patterns" and "search True p text = Some m"
  shows "\<exists>n. py_int (match_group m 1) = Inr n"
proof -
  from assms(1) have "\<exists>rtail. p = Seq (Grp 1 (rplus digit)) rtail \<and> no_grp 1 rtail"
    unfolding count_patterns_def adult_male_pattern_def adult_female_pattern_def
          minor_female_pattern_def minor_male_pattern_def minor_pattern_def
    by (auto simp: space_def)
  with assms(2) digit_group_int show ?thesis by blast
qed

lemma set_count_total:
  assumes "p \<in> set count_patterns"
  shows "set_count p text key ps = Inr ps
       \<or> (\<exists>n. set_count p text key ps = Inr (AList.update key n ps))"
proof (cases "search True p text")
  case None thus ?thesis by (simp add: set_count_def)
next
  case (Some m)
  from count_pattern_int [OF assms Some] obtain n where "py_int (match_group m 1) = Inr n" ..
  with Some show ?thesis by (auto simp: set_count_def ebind_def)
qed

lemma set_count_step:
  assumes "p \<in> set count_patterns"
  obtains ps' where "set_count p text key ps = Inr ps'"
    and "ps' = ps \<or> (\<exists>n. ps' = AList.update key n ps)"
  using set_count_total [OF assms, of "text" key ps] by blast

lemma total_ok_cases:
  assumes "p1 = [] \<or> (\<exists>n. p1 = AList.update ''adult_male'' n [])"
    and "p2 = p1 \<or> (\<exists>n. p2 = AList.update ''adult_female'' n p1)"
    and "p3 = p2 \<or> (\<exists>n. p3 = AList.update ''minor_female'' n p2)"
    and "p4 = p3 \<or> (\<exists>n. p4 = AList.update ''minor_male'' n p3)"
    and "p5 = p4 \<or> (\<exists>n. p5 = AList.update ''minor'' n p4)"
  shows "p5 = [] \<or> total_ok (AList.update ''total'' (sum_list (map snd p5)) p5)"
  using assms by (elim disjE exE; simp add: total_ok_def count_of_def)

lemma extract_passenger_info_total:
  "\<exists>ps. extract_passenger_info text = Inr ps \<and> (ps = [] \<or> total_ok ps)"
proof -
  have mem: "adult_male_pattern \<in> set count_patterns" "adult_female_pattern \<in> set count_patterns"
    "minor_female_pattern \<in> set count_patterns" "minor_male_pattern \<in> set count_patterns"
    "minor_pattern \<in> set count_patterns"
    by (simp_all add: count_patterns_def)
  obtain p1 where 1: "set_count adult_male_pattern text ''adult_male'' [] = Inr p1"
    "p1 = [] \<or> (\<exists>n. p1 = AList.update ''adult_male'' n [])"
    by (rule set_count_step [OF mem(1)])
  obtain p2 where 2: "set_count adult_female_pattern text ''adult_female'' p1 = Inr p2"
    "p2 = p1 \<or> (\<exists>n. p2 = AList.update ''adult_female'' n p1)"
    by (rule set_count_step [OF mem(2)])
  obtain p3 where 3: "set_count minor_female_pattern text ''minor_female'' p2 = Inr p3"
    "p3 = p2 \<or> (\<exists>n. p3 = AList.update ''minor_female'' n p2)"
    by (rule set_count_step [OF mem(3)])
  obtain p4 where 4: "set_count minor_male_pattern text ''minor_male'' p3 = Inr p4"
    "p4 = p3 \<or> (\<exists>n. p4 = AList.update ''minor_male'' n p3)"
    by (rule set_count_step [OF mem(4)])
  obtain p5 where 5: "set_count minor_pattern text ''minor'' p4 = Inr p5"
    "p5 = p4 \<or> (\<exists>n. p5 = AList.update ''minor'' n p4)"
    by (rule set_count_step [OF mem(5)])
  have "extract_passenger_info text =
      Inr (if p5 \<noteq> [] then AList.update ''total'' (sum_list (map snd p5)) p5 else p5)"
    by (simp add: extract_passenger_info_def ebind_def 1(1) 2(1) 3(1) 4(1) 5(1))
  moreover have "p5 = [] \<or> total_ok (AList.update ''total'' (sum_list (map snd p5)) p5)"
    using 1(2) 2(2) 3(2) 4(2) 5(2) by (rule total_ok_cases)
  ultimately show ?thesis by auto
qed


lemma extract_entities_total: "\<exists>e. extract_entities text = Inr e"
  using extract_passenger_info_total [of "text"]
  by (auto simp: extract_entities_def Let_def ebind_def)














text \<open>
  Claim C9 says that \<open>extract_entities\<close> assigns \<open>name\<close> only when the label or title
  is followed by two or more capitalized words. The name patterns are searched under
  IGNORECASE, which also lifts the case of the classes \<open>[A-Z]\<close> and \<open>[a-z]\<close>: a name
  written in lower case is extracted, although the same patterns searched case-sensitively
  do not match it.
\<close>

theorem name_ignores_case:
  "extract_entities ''Name: john smith'' = Inr [(''name'', VStr ''john smith'')]
   \<and> first_search False name_patterns ''Name: john smith'' = None"
  by code_simp

section \<open>Cross-frame merger\<close>

lemma absorbed_merge_item_id: "absorbed m kv \<Longrightarrow> merge_item m kv = m"
  by (cases "snd kv") (auto simp: absorbed_def merge_item_def)

lemma merge_item_absorbs: "absorbed (merge_item m kv) kv"
  by (cases "snd kv")
     (auto simp: absorbed_def merge_item_def update_conv' py_str_def split: option.splits)

lemma absorbed_mono: "absorbed m kv \<Longrightarrow> absorbed (merge_item m kv') kv"
  by (cases "snd kv"; cases "snd kv'")
     (auto simp: absorbed_def merge_item_def update_conv' py_str_def split: option.splits)

lemma absorbed_foldl: "absorbed m kv \<Longrightarrow> absorbed (foldl merge_item m es) kv"
  by (induction es arbitrary: m) (auto intro: absorbed_mono)

lemma foldl_absorbs: "kv \<in> set es \<Longrightarrow> absorbed (foldl merge_item m es) kv"
proof (induction es arbitrary: m)
  case Nil thus ?case by simp
next
  case (Cons e es)
  show ?case
  proof (cases "kv = e")
    case True
    have "absorbed (merge_item m e) e" by (rule merge_item_absorbs)
    thus ?thesis using True by (simp add: absorbed_foldl)
  next
    case False
    with Cons show ?thesis by simp
  qed
qed

lemma foldl_absorbed_id: "\<forall>kv \<in> set es. absorbed m kv \<Longrightarrow> foldl merge_item m es = m"
  by (induction es) (auto simp: absorbed_merge_item_id)

lemma merge_twice: "foldl merge_item (foldl merge_item m es) es = foldl merge_item m es"
  by (rule foldl_absorbed_id) (simp add: foldl_absorbs)

text \<open>
  Claim C8. Merging is idempotent on identical repeated input: for every frame result
  \<open>R\<close>, merging \<open>[R, R]\<close> gives the same entity record as merging \<open>[R]\<close>.
\<close>

theorem merge_entities_idempotent: "merge_entities [R, R] = merge_entities [R]"
  by (simp add: merge_entities_def merge_twice)

section \<open>Date resolver\<close>

















section \<open>Flight query parser\<close>

lemma query_pattern_int:
  assumes "p \<in> set (male_patterns @ female_patterns @ minor_patterns)"
    and "search False p t = Some m"
  shows "py_int (match_group m 1) = Inl ValueError"
proof -
  from assms(1)
  have "\<exists>rtail. p = Seq (Grp 1 (rplus (Chr (CHR ''d'')))) rtail \<and> no_grp 1 rtail"
    unfolding male_patterns_def female_patterns_def minor_patterns_def by auto
  with assms(2) letter_group_int show ?thesis by blast
qed

lemma query_count_result:
  assumes "set ps \<subseteq> set (male_patterns @ female_patterns @ minor_patterns)"
  shows "query_count ps ql store pa =
     (if first_search False ps ql = None then Inr pa else Inl ValueError)"
proof (cases "first_search False ps ql")
  case None thus ?thesis by (simp add: query_count_def)
next
  case (Some m)
  from first_search_mem [OF Some] obtain p where "p \<in> set ps" "search False p ql = Some m" ..
  with assms query_pattern_int have "py_int (match_group m 1) = Inl ValueError" by blast
  with Some show ?thesis by (simp add: query_count_def ebind_def)
qed

lemma query_passengers_result:
  "query_passengers ql = (if no_count ql then Inr default_passengers else Inl ValueError)"
proof -
  have m: "\<And>store pa. query_count male_patterns ql store pa =
     (if first_search False male_patterns ql = None then Inr pa else Inl ValueError)"
    by (rule query_count_result) simp
  have f: "\<And>store pa. query_count female_patterns ql store pa =
     (if first_search False female_patterns ql = None then Inr pa else Inl ValueError)"
    by (rule query_count_result) auto
  have c: "\<And>store pa. query_count minor_patterns ql store pa =
     (if first_search False minor_patterns ql = None then Inr pa else Inl ValueError)"
    by (rule query_count_result) auto
  show ?thesis
    by (simp add: query_passengers_def m f c ebind_def no_count_def default_passengers_def)
qed

lemma parse_flight_query_passengers:
  assumes "parse_flight_query env query cd = Inr r"
  shows "map_of r ''passengers'' = Some (VPass default_passengers) \<and> no_count (lower query)"
proof -
  from assms obtain result ps where ps: "query_passengers (lower query) = Inr ps"
    and r: "r = AList.update ''passengers'' (VPass ps) result"
    unfolding parse_flight_query_def Let_def
    by (auto dest!: ebind_Inr)
  from ps have "no_count (lower query)" "ps = default_passengers"
    by (simp_all add: query_passengers_result split: if_splits)
  with r show ?thesis by (simp add: update_conv')
qed



text \<open>
  Claim C10. For every query on which \<open>parse_flight_query\<close> returns normally, the
  returned \<open>passengers\<close> mapping is exactly \<open>{adult_male: 1, total: 1}\<close>: every match
  of a count pattern of the query parser captures a run of the letter \<open>d\<close>, on which
  \<open>int\<close> raises, so the call returns only when no count pattern matches.
\<close>

theorem query_passengers_always_default:
  "(\<forall>p \<in> set (male_patterns @ female_patterns @ minor_patterns).
      \<forall>m. search False p (lower query) = Some m \<longrightarrow> py_int (match_group m 1) = Inl ValueError)
   \<and> (\<forall>r. parse_flight_query env query current_date = Inr r \<longrightarrow>
         map_of r ''passengers'' = Some (VPass default_passengers) \<and> no_count (lower query))
   \<and> map_of default_passengers = [''adult_male'' \<mapsto> 1, ''total'' \<mapsto> 1]"
proof -
  have "map_of default_passengers = [''adult_male'' \<mapsto> 1, ''total'' \<mapsto> 1]"
    by (rule ext) (simp add: default_passengers_def)
  thus ?thesis using query_pattern_int parse_flight_query_passengers by blast
qed

text \<open>
  The theorem on a query that a count pattern matches and on a query that the parser
  accepts.
\<close>

theorem query_passengers_always_default_witness:
  "hd male_patterns \<in> set (male_patterns @ female_patterns @ minor_patterns)
   \<and> (\<exists>m. search False (hd male_patterns) (lower ''Goodman'') = Some m
          \<and> py_int (match_group m 1) = Inl ValueError)
   \<and> parse_flight_query offline ''Goa'' (Some ''2024-03-04'')
        = Inr [(''travel_intent'', VStr ''one_way''), (''passengers'', VPass default_passengers)]
   \<and> map_of [(''travel_intent'', VStr ''one_way''), (''passengers'', VPass default_passengers)]
        ''passengers'' = Some (VPass default_passengers)
   \<and> no_count (lower ''Goa'')"
proof -
  have h1: "hd male_patterns \<in> set (male_patterns @ female_patterns @ minor_patterns)"
    by (simp add: male_patterns_def)
  have "search False (hd male_patterns) (lower ''Goodman'') \<noteq> None" by code_simp
  then obtain m where h2: "search False (hd male_patterns) (lower ''Goodman'') = Some m" by blast
  have h3: "parse_flight_query offline ''Goa'' (Some ''2024-03-04'')
        = Inr [(''travel_intent'', VStr ''one_way''), (''passengers'', VPass default_passengers)]"
    by code_simp
  from query_passengers_always_default [of "''Goodman''" offline "Some ''2024-03-04''"] h1 h2
  have "py_int (match_group m 1) = Inl ValueError" by blast
  moreover from query_passengers_always_default [of "''Goa''" offline "Some ''2024-03-04''"] h3
  have "map_of [(''travel_intent'', VStr ''one_way''), (''passengers'', VPass default_passengers)]
        ''passengers'' = Some (VPass default_passengers) \<and> no_count (lower ''Goa'')" by blast
  ultimately show ?thesis using h1 h2 h3 by blast
qed





text \<open>
  Claim C5 says that a query containing "from x to y", or a bare "x to y", gets
  \<open>origin\<close> and \<open>destination\<close> from the city normalizer. In the route patterns the
  space class is written without its backslash, so they ask for the letter \<open>s\<close> where
  a space stands: on "from delhi to mumbai" neither pattern matches and the result has
  no \<open>origin\<close> and no \<open>destination\<close>.
\<close>

theorem route_not_extracted:
  "parse_flight_query offline ''from delhi to mumbai'' (Some ''2024-03-04'')
     = Inr [(''travel_intent'', VStr ''one_way''),
            (''passengers'', VPass [(''total'', 1), (''adult_male'', 1)])]
   \<and> first_search False query_route_patterns (lower ''from delhi to mumbai'') = None
   \<and> first_search False query_route_patterns (lower ''delhi to mumbai'') = None"
  by code_simp

text \<open>
  Claim C1 says that every core operation returns normally on every string.
  \<open>extract_passenger_info\<close> and \<open>extract_entities\<close> do (lemmas
  \<open>extract_passenger_info_total\<close> and \<open>extract_entities_total\<close>), and the merger and
  the question rules have no failing step. \<open>parse_flight_query\<close> does not: with a valid
  reference date, a query in which the letter \<open>d\<close> is followed by "man" matches a count
  pattern, \<open>int\<close> raises ValueError on the captured letter, and the endpoint
  answers with the HTTP error 500.
\<close>

theorem parse_flight_query_raises:
  "strptime ''2024-03-04'' = Inr 738949
   \<and> parse_flight_query offline ''a ticket for Mr Goodman'' (Some ''2024-03-04'') = Inl ValueError
   \<and> parse_flight_query_endpoint offline ''a ticket for Mr Goodman'' (Some ''2024-03-04'')
       = Inl HTTP_500"
  by code_simp

section \<open>Question resolver\<close>






end
